theory Spec2Isabelle
  imports Main "HOL-Library.Sublist"
begin

section \<open>Common JavaScript values\<close>

text \<open>
  Thrown and rejected values are \<open>Error\<close> objects, of which the code reads the
  \<open>message\<close> only. Strings are \<open>char\<close> lists, that is sequences of code units
  below 256.
\<close>

datatype js_error = JsError (message: string)

text \<open>
  Every \<open>console\<close> call of the two source files is one line of the console. The
  lines built from a template carry the interpolated values as arguments; the source text
  of each is given beside it. \<open>Log\<close> and \<open>Error\<close> are the calls with a literal
  message (and, for \<open>Error\<close>, the error object as second argument).
\<close>

datatype console_line =
    Log string
  | Error string js_error
  | Warn_already_registered string string
      \<comment> \<open>warn: Shortcut ACC (DESC) is already registered, unregistering first...\<close>
  | Log_registered string string
      \<comment> \<open>log: Successfully registered: ACC (DESC)\<close>
  | Error_failed string string
      \<comment> \<open>error: Failed to register: ACC (DESC)\<close>
  | Error_maybe_in_use
      \<comment> \<open>error: This shortcut may already be in use by another application or the OS\<close>
  | Error_registering string string js_error
      \<comment> \<open>error: Error registering ACC (DESC): followed by the error\<close>
  | Log_trying_fallbacks string
      \<comment> \<open>log: Trying fallback shortcuts for: DESC\<close>
  | Log_using_fallback string
      \<comment> \<open>log: Using fallback: ACC\<close>
  | Error_all_failed string
      \<comment> \<open>error: All shortcuts failed for: DESC\<close>
  | Error_in_shortcut string js_error
      \<comment> \<open>error: Error in shortcut ACC: followed by the error\<close>


section \<open>shortcuts.ts: the shortcut registry\<close>

subsection \<open>Callbacks and the handler registered with the OS\<close>

text \<open>
  A callback is \<open>(() => void) | (() => Promise<void>)\<close>. Invoked on the application's
  state \<open>'w\<close> it either throws, or returns \<open>undefined\<close>, or returns a promise; the
  promise is represented by the way it settles. \<open>'w\<close> is opaque here: the state the
  callback leaves is the state after its promise has settled.
\<close>

datatype settled = Fulfilled | Rejected js_error

datatype returned = Undefined | Promise settled

type_synonym 'w callback = "'w \<Rightarrow> (js_error + returned) \<times> 'w"

text \<open>
  What the OS dispatch layer sees of one run of a handler: an exception thrown out of the
  handler (\<open>escaped\<close>), a rejected promise nobody handles (\<open>unhandled\<close>), the
  console lines the run wrote and the state it left.
\<close>

record 'w handler_run =
  escaped :: "js_error option"
  unhandled :: "js_error option"
  printed :: "console_line list"
  world :: 'w

type_synonym 'w handler = "'w \<Rightarrow> 'w handler_run"

text \<open>
  \<open>p.catch(f)\<close>: a fulfilled promise passes through and \<open>f\<close> is not called; a
  rejected one calls \<open>f\<close> with the reason, and the promise \<open>catch\<close> returns is
  fulfilled when \<open>f\<close> returns. \<open>f\<close> here only writes to the console.
\<close>

definition promise_catch ::
  "settled \<Rightarrow> (js_error \<Rightarrow> console_line list) \<Rightarrow> settled \<times> console_line list" where
  "promise_catch p f =
     (case p of Fulfilled \<Rightarrow> (Fulfilled, []) | Rejected err \<Rightarrow> (Fulfilled, f err))"

text \<open>A promise that is dropped with no handler attached: its rejection is unhandled.\<close>

definition dropped :: "settled \<Rightarrow> js_error option" where
  "dropped p = (case p of Fulfilled \<Rightarrow> None | Rejected err \<Rightarrow> Some err)"

text \<open>
  The callback called with no wrapper, for comparison: what it throws escapes, and the
  promise it returns is dropped.
\<close>

definition bare_handler :: "'w callback \<Rightarrow> 'w handler" where
  "bare_handler callback w =
     (case callback w of
        (Inl err, w') \<Rightarrow> \<lparr>escaped = Some err, unhandled = None, printed = [], world = w'\<rparr>
      | (Inr Undefined, w') \<Rightarrow> \<lparr>escaped = None, unhandled = None, printed = [], world = w'\<rparr>
      | (Inr (Promise p), w') \<Rightarrow>
          \<lparr>escaped = None, unhandled = dropped p, printed = [], world = w'\<rparr>)"

text \<open>
  The arrow function passed to \<open>globalShortcut.register\<close> (lines 26 to 36): the
  \<open>try\<close> around the call, the test \<open>result && typeof result.catch === 'function'\<close>
  (true of a promise, false of \<open>undefined\<close>), and the \<open>catch\<close> handler attached
  to the promise. The promise returned by \<open>result.catch\<close> is dropped.
\<close>

definition shortcut_handler :: "string \<Rightarrow> 'w callback \<Rightarrow> 'w handler" where
  "shortcut_handler accelerator callback w =
     (case callback w of
        (Inl err, w') \<Rightarrow>
          \<lparr>escaped = None, unhandled = None,
           printed = [Error_in_shortcut accelerator err], world = w'\<rparr>
      | (Inr Undefined, w') \<Rightarrow>
          \<lparr>escaped = None, unhandled = None, printed = [], world = w'\<rparr>
      | (Inr (Promise p), w') \<Rightarrow>
          (case promise_catch p (\<lambda>err. [Error_in_shortcut accelerator err]) of
             (p', lines) \<Rightarrow>
               \<lparr>escaped = None, unhandled = dropped p', printed = lines, world = w'\<rparr>))"

subsection \<open>The OS shortcut table\<close>

text \<open>
  Electron's \<open>globalShortcut\<close> is not part of the repository: it is a parameter, three
  operations on an OS state \<open>'os\<close>. Each may throw (\<open>Inl\<close>) and each returns the OS
  state it leaves. \<open>register\<close> answers \<open>false\<close> when the OS refuses the accelerator.
\<close>

record ('os, 'w) globalShortcut =
  isRegistered :: "string \<Rightarrow> 'os \<Rightarrow> (js_error + bool) \<times> 'os"
  unregister :: "string \<Rightarrow> 'os \<Rightarrow> (js_error + unit) \<times> 'os"
  register :: "string \<Rightarrow> 'w handler \<Rightarrow> 'os \<Rightarrow> (js_error + bool) \<times> 'os"

text \<open>
  The state \<open>ShortcutsHelper\<close> works on: the OS table, its own
  \<open>registeredShortcuts\<close> map and the console.
\<close>

record 'os shortcuts_state =
  os :: 'os
  registeredShortcuts :: "string \<rightharpoonup> bool"
  sh_console :: "console_line list"

definition sh_print :: "console_line list \<Rightarrow> 'os shortcuts_state \<Rightarrow> 'os shortcuts_state" where
  "sh_print lines s = s\<lparr>sh_console := sh_console s @ lines\<rparr>"

text \<open>The \<open>catch (error)\<close> block of \<open>registerShortcut\<close> (lines 47 to 51).\<close>

definition register_caught ::
  "string \<Rightarrow> string \<Rightarrow> js_error \<Rightarrow> 'os shortcuts_state \<Rightarrow> bool \<times> 'os shortcuts_state" where
  "register_caught accelerator description error s =
     (let s1 = sh_print [Error_registering accelerator description error] s
      in (False, s1\<lparr>registeredShortcuts := (registeredShortcuts s1)(accelerator \<mapsto> False)\<rparr>))"

text \<open>\<open>registerShortcut\<close> (lines 12 to 52).\<close>

definition registerShortcut ::
  "('os, 'w) globalShortcut \<Rightarrow> string \<Rightarrow> 'w callback \<Rightarrow> string \<Rightarrow>
   'os shortcuts_state \<Rightarrow> bool \<times> 'os shortcuts_state" where
  "registerShortcut gs accelerator callback description s =
     (case isRegistered gs accelerator (os s) of
        (Inl error, os1) \<Rightarrow> register_caught accelerator description error (s\<lparr>os := os1\<rparr>)
      | (Inr already, os1) \<Rightarrow>
          (case (if already
                 then (case unregister gs accelerator os1 of
                         (r, os2) \<Rightarrow>
                           (r, sh_print [Warn_already_registered accelerator description]
                                 (s\<lparr>os := os2\<rparr>)))
                 else (Inr (), s\<lparr>os := os1\<rparr>)) of
             (Inl error, s2) \<Rightarrow> register_caught accelerator description error s2
           | (Inr _, s2) \<Rightarrow>
               (case register gs accelerator (shortcut_handler accelerator callback) (os s2) of
                  (Inl error, os3) \<Rightarrow>
                    register_caught accelerator description error (s2\<lparr>os := os3\<rparr>)
                | (Inr registered, os3) \<Rightarrow>
                    (let s3 = s2\<lparr>os := os3,
                               registeredShortcuts :=
                                 (registeredShortcuts s2)(accelerator \<mapsto> registered)\<rparr>
                     in (registered,
                         sh_print (if registered
                                   then [Log_registered accelerator description]
                                   else [Error_failed accelerator description,
                                         Error_maybe_in_use]) s3)))))"

text \<open>The result object of \<open>registerWithFallback\<close>; \<open>None\<close> is \<open>null\<close>.\<close>

record fallback_result =
  success :: bool
  accelerator :: "string option"



subsection \<open>Observing the registration attempts\<close>






text \<open>
  Two callbacks that fail: a synchronous one that throws, and an \<open>async\<close> one whose
  promise is rejected. Both count their invocations.
\<close>

definition throwing_callback :: "nat callback" where
  "throwing_callback w = (Inl (JsError ''window is gone''), Suc w)"

definition rejecting_callback :: "nat callback" where
  "rejecting_callback w = (Inr (Promise (Rejected (JsError ''request failed''))), Suc w)"

text \<open>
  Two OS tables that show which handler \<open>register\<close> receives. \<open>keep_os\<close> grants
  every accelerator and its state maps each accelerator held to its handler, the one the
  OS calls when the keys are pressed. \<open>recording\<close> leaves the behaviour of any table
  as it is and notes, in order, every accelerator and handler passed to \<open>register\<close>.
\<close>

definition keep_os :: "(string \<rightharpoonup> 'w handler, 'w) globalShortcut" where
  "keep_os =
     \<lparr>isRegistered = (\<lambda>a held. (Inr (held a \<noteq> None), held)),
      unregister = (\<lambda>a held. (Inr (), held(a := None))),
      register = (\<lambda>a h held. (Inr True, held(a \<mapsto> h)))\<rparr>"

definition keep_start :: "(string \<rightharpoonup> 'w handler) shortcuts_state" where
  "keep_start = \<lparr>os = Map.empty, registeredShortcuts = Map.empty, sh_console = []\<rparr>"

definition recording ::
  "('os, 'w) globalShortcut \<Rightarrow> ('os \<times> (string \<times> 'w handler) list, 'w) globalShortcut" where
  "recording gs =
     \<lparr>isRegistered = (\<lambda>a (st, seen). case isRegistered gs a st of (r, st') \<Rightarrow> (r, st', seen)),
      unregister = (\<lambda>a (st, seen). case unregister gs a st of (r, st') \<Rightarrow> (r, st', seen)),
      register = (\<lambda>a h (st, seen).
         case register gs a h st of (r, st') \<Rightarrow> (r, st', seen @ [(a, h)]))\<rparr>"


section \<open>ProcessingHelper.ts: the processing orchestrator\<close>

subsection \<open>Strings\<close>

text \<open>\<open>s.endsWith(suf)\<close>.\<close>

definition endsWith :: "string \<Rightarrow> string \<Rightarrow> bool" where
  "endsWith s suf = suffix suf s"

text \<open>The optional newline \<open>\n?\<close> at the end of both fence patterns: it is greedy.\<close>

definition drop_opt_newline :: "string \<Rightarrow> string" where
  "drop_opt_newline s = (case s of [] \<Rightarrow> [] | c # cs \<Rightarrow> if c = CHR 0x0A then cs else s)"

text \<open>
  \<open>s.replace(/LIT\n?/g, '')\<close> for a literal \<open>LIT\<close>: the global replace scans from
  the left; where the pattern matches, the match is removed and the scan goes on behind
  it; elsewhere the character is kept. With the empty literal the pattern is \<open>\n?\<close> and
  every newline goes.
\<close>

function remove_fence :: "string \<Rightarrow> string \<Rightarrow> string" where
  "remove_fence lit [] = []"
| "remove_fence lit (c # cs) =
     (if lit \<noteq> [] \<and> prefix lit (c # cs)
      then remove_fence lit (drop_opt_newline (drop (length lit) (c # cs)))
      else if lit = [] \<and> c = CHR 0x0A then remove_fence lit cs
      else c # remove_fence lit cs)"
  by pat_completeness auto
termination
proof (relation "measure (\<lambda>(lit, s). length s)")
  fix lit :: string and c cs
  assume "lit \<noteq> [] \<and> prefix lit (c # cs)"
  then have less: "length (drop (length lit) (c # cs)) < length (c # cs)"
    by (cases lit) simp_all
  have le: "length (drop_opt_newline t) \<le> length t" for t
    by (simp add: drop_opt_newline_def split: list.splits)
  have "length (drop_opt_newline (drop (length lit) (c # cs))) < length (c # cs)"
    by (rule le_less_trans [OF le less])
  then show "((lit, drop_opt_newline (drop (length lit) (c # cs))), lit, c # cs)
      \<in> measure (\<lambda>(lit, s). length s)"
    by simp
qed simp_all

text \<open>
  \<open>s.trim()\<close>: the white space and line terminators of ECMAScript among the code units
  below 256 are tab, line feed, vertical tab, form feed, carriage return, space and the
  no-break space.
\<close>

definition js_whitespace :: "char \<Rightarrow> bool" where
  "js_whitespace c \<longleftrightarrow>
     c \<in> set [CHR 0x09, CHR 0x0A, CHR 0x0B, CHR 0x0C, CHR 0x0D, CHR 0x20, CHR 0xA0]"

definition trimStart :: "string \<Rightarrow> string" where
  "trimStart s = dropWhile js_whitespace s"

definition trimEnd :: "string \<Rightarrow> string" where
  "trimEnd s = rev (dropWhile js_whitespace (rev s))"

definition js_trim :: "string \<Rightarrow> string" where
  "js_trim s = trimEnd (trimStart s)"

text \<open>
  Line 222: \<open>result.text.replace(/```cpp\n?/g, '').replace(/```\n?/g, '').trim()\<close>.
\<close>

definition cleanText :: "string \<Rightarrow> string" where
  "cleanText t = js_trim (remove_fence ''```'' (remove_fence ''```cpp'' t))"


subsection \<open>Objects, events and collaborators\<close>

text \<open>
  The object literals the helper builds, and the objects the language-model client
  returns: strings, arrays and objects with their properties in the order written.
\<close>

datatype json = JStr string | JArr "json list" | JObj "(string \<times> json) list"

text \<open>
  Reading a property that is not a built-in member: \<open>None\<close> is \<open>undefined\<close>.
  \<open>truthy\<close> is the coercion made by \<open>!\<close>.
\<close>

fun js_get :: "json \<Rightarrow> string \<Rightarrow> json option" where
  "js_get (JObj props) name = map_of props name"
| "js_get _ name = None"

fun truthy :: "json \<Rightarrow> bool" where
  "truthy (JStr t) = (t \<noteq> [])"
| "truthy _ = True"

text \<open>
  The result of the analysis calls on an artifact; the helper reads its \<open>text\<close> only
  (\<open>text\<close> is a keyword here, hence \<open>rtext\<close>).
\<close>

datatype llm_result = LlmResult (rtext: string)

text \<open>The keys of \<open>PROCESSING_EVENTS\<close> that the helper sends on.\<close>

datatype channel =
    NO_SCREENSHOTS | INITIAL_START | PROBLEM_EXTRACTED | INITIAL_SOLUTION_ERROR
  | DEBUG_START | DEBUG_SUCCESS | DEBUG_ERROR | SOLUTION_SUCCESS

text \<open>
  The argument sent with an event: none, an error message, an object literal, or the
  result object of an analysis call passed on as it is.
\<close>

datatype payload = No_payload | Message string | Object json | Analysis llm_result

text \<open>The calls made to the language-model client, with their arguments.\<close>

datatype llm_call =
    AnalyzeAudioFile string
  | AnalyzeImageFile string
  | AnalyzeImageMcq string
  | AnalyzeImageCoding string
  | GenerateSolution json
  | DebugSolutionWithImages json "json option" "string list"

text \<open>
  The state the helper reads and writes: that of \<open>AppState\<close> behind its accessors (the
  window is there or not, the view, the two queues, the problem info, the debug flag,
  the events sent to the window), the helper's two abort controller fields, and the
  world outside (clipboard, console, the calls received by the language-model client).
  An \<open>AbortController\<close> is an object: \<open>new\<close> takes the next identity, and
  \<open>aborted\<close> lists the controllers whose \<open>abort()\<close> was called.
\<close>

record app_state =
  mainWindow :: bool
  view :: string
  screenshotQueue :: "string list"
  extraScreenshotQueue :: "string list"
  problemInfo :: "json option"
  hasDebugged :: bool
  currentProcessingAbortController :: "nat option"
  currentExtraProcessingAbortController :: "nat option"
  next_controller :: nat
  aborted :: "nat list"
  sent :: "(channel \<times> payload) list"
  clipboard :: string
  console :: "console_line list"
  llm_calls :: "llm_call list"

text \<open>
  The collaborators are parameters: the analysis calls of \<open>LLMHelper\<close>, each throwing
  (\<open>Inl\<close>) or returning, and \<open>AppState.takeScreenshot\<close>, which throws or returns
  the path of a fresh capture and leaves the two queues it owns as its second and third
  result. Only the orchestrator writes the problem info, the flag and the slots.
\<close>

record collaborators =
  analyzeAudioFile :: "string \<Rightarrow> js_error + llm_result"
  analyzeImageFile :: "string \<Rightarrow> js_error + llm_result"
  analyzeImageMcq :: "string \<Rightarrow> js_error + llm_result"
  analyzeImageCoding :: "string \<Rightarrow> js_error + llm_result"
  generateSolution :: "json \<Rightarrow> js_error + json"
  debugSolutionWithImages :: "json \<Rightarrow> json option \<Rightarrow> string list \<Rightarrow> js_error + json"
  takeScreenshot :: "app_state \<Rightarrow> (js_error + string) \<times> string list \<times> string list"

definition send :: "channel \<Rightarrow> payload \<Rightarrow> app_state \<Rightarrow> app_state" where
  "send ch arg s = s\<lparr>sent := sent s @ [(ch, arg)]\<rparr>"

definition setView :: "string \<Rightarrow> app_state \<Rightarrow> app_state" where
  "setView v s = s\<lparr>view := v\<rparr>"

definition setProblemInfo :: "json \<Rightarrow> app_state \<Rightarrow> app_state" where
  "setProblemInfo info s = s\<lparr>problemInfo := Some info\<rparr>"

definition setHasDebugged :: "bool \<Rightarrow> app_state \<Rightarrow> app_state" where
  "setHasDebugged b s = s\<lparr>hasDebugged := b\<rparr>"

definition print :: "console_line \<Rightarrow> app_state \<Rightarrow> app_state" where
  "print l s = s\<lparr>console := console s @ [l]\<rparr>"

definition called :: "llm_call \<Rightarrow> app_state \<Rightarrow> app_state" where
  "called c s = s\<lparr>llm_calls := llm_calls s @ [c]\<rparr>"

definition new_AbortController :: "app_state \<Rightarrow> nat \<times> app_state" where
  "new_AbortController s = (next_controller s, s\<lparr>next_controller := Suc (next_controller s)\<rparr>)"

definition abort :: "nat \<Rightarrow> app_state \<Rightarrow> app_state" where
  "abort c s = s\<lparr>aborted := aborted s @ [c]\<rparr>"

subsection \<open>processScreenshots\<close>

text \<open>The audio branch of the queue view (lines 57 to 68).\<close>

definition audio_path :: "collaborators \<Rightarrow> string \<Rightarrow> app_state \<Rightarrow> app_state" where
  "audio_path env lastPath s =
     (let s1 = setView ''solutions'' (send INITIAL_START No_payload s);
          s2 = called (AnalyzeAudioFile lastPath) s1
      in case analyzeAudioFile env lastPath of
           Inr audioResult \<Rightarrow>
             setProblemInfo
               (JObj [(''problem_statement'', JStr (rtext audioResult)),
                      (''input_format'', JObj []),
                      (''output_format'', JObj []),
                      (''constraints'', JArr []),
                      (''test_cases'', JArr [])])
               (send PROBLEM_EXTRACTED (Analysis audioResult) s2)
         | Inl err \<Rightarrow>
             send INITIAL_SOLUTION_ERROR (Message (message err))
               (print (Error ''Audio processing error:'' err) s2))"

text \<open>The image branch of the queue view (lines 72 to 94).\<close>

definition image_path :: "collaborators \<Rightarrow> string \<Rightarrow> app_state \<Rightarrow> app_state" where
  "image_path env lastPath s =
     (let s1 = setView ''solutions'' (send INITIAL_START No_payload s);
          (c, s2) = new_AbortController s1;
          s3 = s2\<lparr>currentProcessingAbortController := Some c\<rparr>;
          s4 = called (AnalyzeImageFile lastPath) s3;
          s5 = (case analyzeImageFile env lastPath of
                  Inr imageResult \<Rightarrow>
                    (let info =
                           JObj [(''problem_statement'', JStr (rtext imageResult)),
                                 (''input_format'',
                                    JObj [(''description'', JStr ''Generated from screenshot''),
                                          (''parameters'', JArr [])]),
                                 (''output_format'',
                                    JObj [(''description'', JStr ''Generated from screenshot''),
                                          (''type'', JStr ''string''),
                                          (''subtype'', JStr ''text'')]),
                                 (''complexity'',
                                    JObj [(''time'', JStr ''N/A''), (''space'', JStr ''N/A'')]),
                                 (''test_cases'', JArr []),
                                 (''validation_type'', JStr ''manual''),
                                 (''difficulty'', JStr ''custom'')]
                     in setProblemInfo info
                          (send PROBLEM_EXTRACTED (Object info) s4))
                | Inl error \<Rightarrow>
                    send INITIAL_SOLUTION_ERROR (Message (message error))
                      (print (Error ''Image processing error:'' error) s4))
      in s5\<lparr>currentProcessingAbortController := None\<rparr>)"

text \<open>
  The \<open>try\<close> block of the debug branch (lines 108 to 129): \<open>Inl\<close> is what it
  throws. Reading \<open>.code\<close> of an \<open>undefined\<close> \<open>solution\<close> is a \<open>TypeError\<close>.
\<close>

definition debug_try :: "collaborators \<Rightarrow> app_state \<Rightarrow> (js_error + unit) \<times> app_state" where
  "debug_try env s =
     (case problemInfo s of
        None \<Rightarrow> (Inl (JsError ''No problem info available''), s)
      | Some info \<Rightarrow>
          if \<not> truthy info then (Inl (JsError ''No problem info available''), s)
          else
            (let s1 = called (GenerateSolution info) s
             in case generateSolution env info of
                  Inl error \<Rightarrow> (Inl error, s1)
                | Inr currentSolution \<Rightarrow>
                    (case js_get currentSolution ''solution'' of
                       None \<Rightarrow>
                         (Inl (JsError
                            ''Cannot read properties of undefined (reading 'code')''), s1)
                     | Some solution \<Rightarrow>
                         (let currentCode = js_get solution ''code'';
                              s2 = called (DebugSolutionWithImages info currentCode
                                             (extraScreenshotQueue s)) s1
                          in case debugSolutionWithImages env info currentCode
                                    (extraScreenshotQueue s) of
                               Inl error \<Rightarrow> (Inl error, s2)
                             | Inr debugResult \<Rightarrow>
                                 (Inr (),
                                  send DEBUG_SUCCESS (Object debugResult)
                                    (setHasDebugged True s2))))))"

text \<open>The debug branch (lines 96 to 140).\<close>

definition debug_path :: "collaborators \<Rightarrow> app_state \<Rightarrow> app_state" where
  "debug_path env s =
     (if length (extraScreenshotQueue s) = 0
      then send NO_SCREENSHOTS No_payload
             (print (Log ''No extra screenshots to process'') s)
      else
        (let s1 = send DEBUG_START No_payload s;
             (c, s2) = new_AbortController s1;
             s3 = s2\<lparr>currentExtraProcessingAbortController := Some c\<rparr>;
             s5 = (case debug_try env s3 of
                     (Inr _, s4) \<Rightarrow> s4
                   | (Inl error, s4) \<Rightarrow>
                       send DEBUG_ERROR (Message (message error))
                         (print (Error ''Debug processing error:'' error) s4))
         in s5\<lparr>currentExtraProcessingAbortController := None\<rparr>))"

text \<open>\<open>processScreenshots\<close> (lines 40 to 141).\<close>

definition processScreenshots :: "collaborators \<Rightarrow> app_state \<Rightarrow> app_state" where
  "processScreenshots env s =
     (if \<not> mainWindow s then s
      else if view s = ''queue'' then
        (if length (screenshotQueue s) = 0 then send NO_SCREENSHOTS No_payload s
         else
           (let lastPath = last (screenshotQueue s)
            in if endsWith lastPath ''.mp3'' \<or> endsWith lastPath ''.wav''
               then audio_path env lastPath s
               else image_path env lastPath s))
      else debug_path env s)"

subsection \<open>cancelOngoingRequests, processMcq, processCoding\<close>

text \<open>\<open>cancelOngoingRequests\<close> (lines 143 to 155).\<close>

definition cancelOngoingRequests :: "app_state \<Rightarrow> app_state" where
  "cancelOngoingRequests s =
     (let s1 = (case currentProcessingAbortController s of
                  Some c \<Rightarrow> (abort c s)\<lparr>currentProcessingAbortController := None\<rparr>
                | None \<Rightarrow> s);
          s2 = (case currentExtraProcessingAbortController s1 of
                  Some c \<Rightarrow> (abort c s1)\<lparr>currentExtraProcessingAbortController := None\<rparr>
                | None \<Rightarrow> s1)
      in setHasDebugged False s2)"

text \<open>\<open>processMcq\<close> (lines 171 to 206).\<close>

definition processMcq :: "collaborators \<Rightarrow> app_state \<Rightarrow> app_state" where
  "processMcq env s =
     (if \<not> mainWindow s then s
      else if length (screenshotQueue s) = 0 then send NO_SCREENSHOTS No_payload s
      else
        (let lastPath = last (screenshotQueue s);
             s1 = setView ''solutions'' (send INITIAL_START No_payload s);
             (c, s2) = new_AbortController s1;
             s3 = s2\<lparr>currentProcessingAbortController := Some c\<rparr>;
             s4 = called (AnalyzeImageMcq lastPath) s3;
             s5 = (case analyzeImageMcq env lastPath of
                     Inr result \<Rightarrow>
                       (let info =
                              JObj [(''problem_statement'', JStr (rtext result)),
                                    (''input_format'',
                                       JObj [(''description'', JStr ''MCQ Mode''),
                                             (''parameters'', JArr [])]),
                                    (''output_format'',
                                       JObj [(''description'', JStr ''MCQ Answer''),
                                             (''type'', JStr ''string''),
                                             (''subtype'', JStr ''text'')]),
                                    (''complexity'',
                                       JObj [(''time'', JStr ''N/A''), (''space'', JStr ''N/A'')]),
                                    (''test_cases'', JArr []),
                                    (''validation_type'', JStr ''manual''),
                                    (''difficulty'', JStr ''easy'')]
                        in setProblemInfo info
                             (send PROBLEM_EXTRACTED (Object info) s4))
                   | Inl error \<Rightarrow>
                       send INITIAL_SOLUTION_ERROR (Message (message error))
                         (print (Error ''MCQ processing error:'' error) s4))
         in s5\<lparr>currentProcessingAbortController := None\<rparr>))"

text \<open>The \<open>catch\<close> block of \<open>processCoding\<close> (lines 237 to 240).\<close>

definition coding_caught :: "js_error \<Rightarrow> app_state \<Rightarrow> app_state" where
  "coding_caught error s =
     send INITIAL_SOLUTION_ERROR (Message (message error))
       (print (Error ''Coding processing error:'' error) s)"

text \<open>\<open>processCoding\<close> (lines 208 to 241).\<close>

definition processCoding :: "collaborators \<Rightarrow> app_state \<Rightarrow> app_state" where
  "processCoding env s =
     (if \<not> mainWindow s then s
      else
        (let s0 = print (Log ''Processing Coding Mode...'') s
         in case takeScreenshot env s0 of
              (Inl error, queue, extraQueue) \<Rightarrow>
                coding_caught error
                  (s0\<lparr>screenshotQueue := queue, extraScreenshotQueue := extraQueue\<rparr>)
            | (Inr screenshotPath, queue, extraQueue) \<Rightarrow>
                (let s1 = called (AnalyzeImageCoding screenshotPath)
                            (s0\<lparr>screenshotQueue := queue, extraScreenshotQueue := extraQueue\<rparr>)
                 in case analyzeImageCoding env screenshotPath of
                      Inl error \<Rightarrow> coding_caught error s1
                    | Inr result \<Rightarrow>
                        print (Log ''Coding solution copied to clipboard'')
                          (send SOLUTION_SUCCESS
                             (Object
                                (JObj [(''problem_statement'',
                                          JStr ''Solution copied to clipboard!''),
                                       (''validation_type'', JStr ''manual''),
                                       (''output_format'',
                                          JObj [(''type'', JStr ''text''),
                                                (''subtype'', JStr ''text'')])]))
                             (s1\<lparr>clipboard := cleanText (rtext result)\<rparr>)))))"

subsection \<open>Collaborators and states for the examples\<close>

text \<open>
  A client whose analysis calls all throw the same error, and one whose analysis calls
  all return the same text. The capture returns a fresh path and appends it to the queue.
\<close>

definition failing_env :: "string \<Rightarrow> collaborators" where
  "failing_env msg =
     \<lparr>analyzeAudioFile = (\<lambda>p. Inl (JsError msg)),
      analyzeImageFile = (\<lambda>p. Inl (JsError msg)),
      analyzeImageMcq = (\<lambda>p. Inl (JsError msg)),
      analyzeImageCoding = (\<lambda>p. Inl (JsError msg)),
      generateSolution = (\<lambda>p. Inl (JsError msg)),
      debugSolutionWithImages = (\<lambda>p c q. Inl (JsError msg)),
      takeScreenshot =
        (\<lambda>s. (Inr ''fresh.png'', screenshotQueue s @ [''fresh.png''], extraScreenshotQueue s))\<rparr>"

definition answering_env :: "string \<Rightarrow> collaborators" where
  "answering_env answer =
     \<lparr>analyzeAudioFile = (\<lambda>p. Inr (LlmResult answer)),
      analyzeImageFile = (\<lambda>p. Inr (LlmResult answer)),
      analyzeImageMcq = (\<lambda>p. Inr (LlmResult answer)),
      analyzeImageCoding = (\<lambda>p. Inr (LlmResult answer)),
      generateSolution = (\<lambda>p. Inr (JObj [(''solution'', JObj [(''code'', JStr answer)])])),
      debugSolutionWithImages = (\<lambda>p c q. Inr (JObj [(''new_code'', JStr answer)])),
      takeScreenshot =
        (\<lambda>s. (Inr ''fresh.png'', screenshotQueue s @ [''fresh.png''], extraScreenshotQueue s))\<rparr>"

text \<open>
  A state with an open window: the view, the two queues and the committed problem info
  are given, the primary slot holds controller 0, the secondary slot is empty.
\<close>

definition committed_info :: json where
  "committed_info = JObj [(''problem_statement'', JStr ''two sum'')]"

definition example_state ::
  "string \<Rightarrow> string list \<Rightarrow> string list \<Rightarrow> json option \<Rightarrow> app_state" where
  "example_state v queue extraQueue info =
     \<lparr>mainWindow = True, view = v, screenshotQueue = queue,
      extraScreenshotQueue = extraQueue, problemInfo = info, hasDebugged = True,
      currentProcessingAbortController = Some 0,
      currentExtraProcessingAbortController = None,
      next_controller = 1, aborted = [], sent = [], clipboard = [], console = [],
      llm_calls = []\<rparr>"

section \<open>The fallback chain of the shortcut registry\<close>








section \<open>The handler wrapper\<close>

text \<open>
  C7. The handler that \<open>registerShortcut\<close> passes to \<open>globalShortcut.register\<close> is
  the wrapper around the callback, never the callback itself: on the table that keeps
  the handlers, the handler held for the accelerator after \<open>registerShortcut\<close> is
  \<open>shortcut_handler\<close> of that accelerator and callback, and on any table whatever the
  only handler \<open>register\<close> is ever offered is that one. Whatever the callback does
  (throw, return nothing, or return a promise that is fulfilled or rejected), one run of
  this handler lets no exception escape and leaves no rejection unhandled. An error
  thrown by the callback, and the reason of a rejected promise, are written to the
  console by the wrapper; called bare, the same callback would let the first escape and
  leave the second unhandled.
\<close>

theorem shortcut_handler_contains_errors:
  "os (snd (registerShortcut keep_os a cb d s)) a = Some (shortcut_handler a cb) \<and>
   (snd (os (snd (registerShortcut (recording gs) a cb d t))) = snd (os t) \<or>
    snd (os (snd (registerShortcut (recording gs) a cb d t))) =
      snd (os t) @ [(a, shortcut_handler a cb)]) \<and>
   (\<forall>h. os (snd (registerShortcut keep_os a cb d s)) a = Some h \<longrightarrow>
      escaped (h w) = None \<and> unhandled (h w) = None \<and> world (h w) = snd (cb w) \<and>
      (\<forall>e. fst (cb w) = Inl e \<longrightarrow> printed (h w) = [Error_in_shortcut a e]) \<and>
      (\<forall>e. fst (cb w) = Inr (Promise (Rejected e)) \<longrightarrow>
         printed (h w) = [Error_in_shortcut a e])) \<and>
   escaped (shortcut_handler a cb w) = None \<and>
   unhandled (shortcut_handler a cb w) = None \<and>
   world (shortcut_handler a cb w) = snd (cb w) \<and>
   (\<forall>e. fst (cb w) = Inl e \<longrightarrow>
      printed (shortcut_handler a cb w) = [Error_in_shortcut a e] \<and>
      escaped (bare_handler cb w) = Some e) \<and>
   (\<forall>e. fst (cb w) = Inr (Promise (Rejected e)) \<longrightarrow>
      printed (shortcut_handler a cb w) = [Error_in_shortcut a e] \<and>
      unhandled (bare_handler cb w) = Some e) \<and>
   (fst (cb w) = Inr Undefined \<or> fst (cb w) = Inr (Promise Fulfilled) \<longrightarrow>
      printed (shortcut_handler a cb w) = [])"
proof -
  have kept: "os (snd (registerShortcut keep_os a cb d s)) a = Some (shortcut_handler a cb)"
    by (simp add: registerShortcut_def keep_os_def sh_print_def Let_def)
  have offered:
    "snd (os (snd (registerShortcut (recording gs) a cb d t))) = snd (os t) \<or>
     snd (os (snd (registerShortcut (recording gs) a cb d t))) =
       snd (os t) @ [(a, shortcut_handler a cb)]"
    by (cases "os t")
       (auto simp: registerShortcut_def recording_def register_caught_def sh_print_def Let_def
             split: prod.splits sum.splits)
  have run: "escaped (shortcut_handler a cb w) = None \<and>
     unhandled (shortcut_handler a cb w) = None \<and>
     world (shortcut_handler a cb w) = snd (cb w) \<and>
     (\<forall>e. fst (cb w) = Inl e \<longrightarrow>
        printed (shortcut_handler a cb w) = [Error_in_shortcut a e] \<and>
        escaped (bare_handler cb w) = Some e) \<and>
     (\<forall>e. fst (cb w) = Inr (Promise (Rejected e)) \<longrightarrow>
        printed (shortcut_handler a cb w) = [Error_in_shortcut a e] \<and>
        unhandled (bare_handler cb w) = Some e) \<and>
     (fst (cb w) = Inr Undefined \<or> fst (cb w) = Inr (Promise Fulfilled) \<longrightarrow>
        printed (shortcut_handler a cb w) = [])"
    by (cases "cb w"; cases "fst (cb w)")
       (auto simp: shortcut_handler_def bare_handler_def promise_catch_def dropped_def
             split: returned.splits settled.splits)
  from run have held: "\<forall>h. os (snd (registerShortcut keep_os a cb d s)) a = Some h \<longrightarrow>
      escaped (h w) = None \<and> unhandled (h w) = None \<and> world (h w) = snd (cb w) \<and>
      (\<forall>e. fst (cb w) = Inl e \<longrightarrow> printed (h w) = [Error_in_shortcut a e]) \<and>
      (\<forall>e. fst (cb w) = Inr (Promise (Rejected e)) \<longrightarrow>
         printed (h w) = [Error_in_shortcut a e])"
    unfolding kept by simp
  from kept offered held run show ?thesis
    by blast
qed

theorem shortcut_handler_contains_errors_witness:
  "(\<exists>h. os (snd (registerShortcut keep_os ''Alt+Shift+L'' throwing_callback
                   ''Toggle Chat'' keep_start)) ''Alt+Shift+L'' = Some h \<and>
        escaped (h 0) = None \<and> unhandled (h 0) = None \<and>
        printed (h 0) = [Error_in_shortcut ''Alt+Shift+L'' (JsError ''window is gone'')]) \<and>
   (\<exists>h. os (snd (registerShortcut keep_os ''CommandOrControl+Enter'' rejecting_callback
                   ''Process Screenshots'' keep_start)) ''CommandOrControl+Enter'' = Some h \<and>
        escaped (h 0) = None \<and> unhandled (h 0) = None \<and>
        printed (h 0) =
          [Error_in_shortcut ''CommandOrControl+Enter'' (JsError ''request failed'')]) \<and>
   fst (throwing_callback 0) = Inl (JsError ''window is gone'') \<and>
   escaped (shortcut_handler ''Alt+Shift+L'' throwing_callback 0) = None \<and>
   printed (shortcut_handler ''Alt+Shift+L'' throwing_callback 0) =
     [Error_in_shortcut ''Alt+Shift+L'' (JsError ''window is gone'')] \<and>
   escaped (bare_handler throwing_callback 0) = Some (JsError ''window is gone'') \<and>
   fst (rejecting_callback 0) = Inr (Promise (Rejected (JsError ''request failed''))) \<and>
   unhandled (shortcut_handler ''CommandOrControl+Enter'' rejecting_callback 0) = None \<and>
   printed (shortcut_handler ''CommandOrControl+Enter'' rejecting_callback 0) =
     [Error_in_shortcut ''CommandOrControl+Enter'' (JsError ''request failed'')] \<and>
   unhandled (bare_handler rejecting_callback 0) = Some (JsError ''request failed'')"
proof -
  have t: "fst (throwing_callback 0) = Inl (JsError ''window is gone'')"
    and r: "fst (rejecting_callback 0) = Inr (Promise (Rejected (JsError ''request failed'')))"
    by (simp_all add: throwing_callback_def rejecting_callback_def)
  from shortcut_handler_contains_errors
         [of "''Alt+Shift+L''" throwing_callback "''Toggle Chat''" keep_start _ _ 0]
    shortcut_handler_contains_errors
         [of "''CommandOrControl+Enter''" rejecting_callback "''Process Screenshots''"
             keep_start _ _ 0]
    t r
  show ?thesis by blast
qed

section \<open>The processing workflows\<close>

lemmas app_defs = send_def setView_def setProblemInfo_def setHasDebugged_def print_def
  called_def new_AbortController_def abort_def

lemmas example_defs = example_state_def failing_env_def answering_env_def committed_info_def
  endsWith_def suffix_to_prefix

text \<open>
  C8. With the window open and the relevant queue empty, \<open>processScreenshots\<close> only
  sends \<open>NO_SCREENSHOTS\<close> (in the debug branch it also writes one console line): the
  problem info, the view, both slots and everything else are as before. The same holds
  of \<open>processMcq\<close> on an empty primary queue. Without a window both return at once
  and send nothing.
\<close>

theorem empty_queue_changes_nothing:
  "(mainWindow s \<and> view s = ''queue'' \<and> screenshotQueue s = [] \<longrightarrow>
      processScreenshots env s = s\<lparr>sent := sent s @ [(NO_SCREENSHOTS, No_payload)]\<rparr>) \<and>
   (mainWindow s \<and> view s \<noteq> ''queue'' \<and> extraScreenshotQueue s = [] \<longrightarrow>
      processScreenshots env s =
        s\<lparr>sent := sent s @ [(NO_SCREENSHOTS, No_payload)],
          console := console s @ [Log ''No extra screenshots to process'']\<rparr>) \<and>
   (mainWindow s \<and> screenshotQueue s = [] \<longrightarrow>
      processMcq env s = s\<lparr>sent := sent s @ [(NO_SCREENSHOTS, No_payload)]\<rparr>) \<and>
   (\<not> mainWindow s \<longrightarrow> processScreenshots env s = s \<and> processMcq env s = s)"
  by (simp add: processScreenshots_def processMcq_def debug_path_def app_defs)

theorem empty_queue_changes_nothing_witness:
  "processScreenshots (answering_env ''A'') (example_state ''queue'' [] [''x.png''] None) =
     (example_state ''queue'' [] [''x.png''] None)\<lparr>sent := [(NO_SCREENSHOTS, No_payload)]\<rparr> \<and>
   processScreenshots (answering_env ''A'')
       (example_state ''solutions'' [''x.png''] [] (Some committed_info)) =
     (example_state ''solutions'' [''x.png''] [] (Some committed_info))
       \<lparr>sent := [(NO_SCREENSHOTS, No_payload)],
        console := [Log ''No extra screenshots to process'']\<rparr> \<and>
   processMcq (answering_env ''A'') (example_state ''queue'' [] [''x.png''] None) =
     (example_state ''queue'' [] [''x.png''] None)\<lparr>sent := [(NO_SCREENSHOTS, No_payload)]\<rparr> \<and>
   processMcq (answering_env ''A'') ((example_state ''queue'' [] [] None)\<lparr>mainWindow := False\<rparr>)
     = (example_state ''queue'' [] [] None)\<lparr>mainWindow := False\<rparr>"
  using empty_queue_changes_nothing
          [of "example_state ''queue'' [] [''x.png''] None" "answering_env ''A''"]
        empty_queue_changes_nothing
          [of "example_state ''solutions'' [''x.png''] [] (Some committed_info)"
              "answering_env ''A''"]
        empty_queue_changes_nothing
          [of "(example_state ''queue'' [] [] None)\<lparr>mainWindow := False\<rparr>" "answering_env ''A''"]
  by (simp add: example_state_def)

text \<open>
  C2. When the analysis call of a workflow throws, the workflow sends
  \<open>INITIAL_SOLUTION_ERROR\<close> with the message of the error and the problem info is
  what it was before. The image branch of \<open>processScreenshots\<close> and \<open>processMcq\<close>
  open the primary slot, and it is empty when they return. The audio branch and
  \<open>processCoding\<close> open no slot: both slots are what they were and no controller was
  created. The window is open in all four.
\<close>

theorem failed_analysis_keeps_problemInfo:
  "(mainWindow s \<and> view s = ''queue'' \<and> screenshotQueue s \<noteq> [] \<and>
    \<not> endsWith (last (screenshotQueue s)) ''.mp3'' \<and>
    \<not> endsWith (last (screenshotQueue s)) ''.wav'' \<and>
    analyzeImageFile env (last (screenshotQueue s)) = Inl err \<longrightarrow>
      sent (processScreenshots env s) =
        sent s @ [(INITIAL_START, No_payload),
                  (INITIAL_SOLUTION_ERROR, Message (message err))] \<and>
      problemInfo (processScreenshots env s) = problemInfo s \<and>
      currentProcessingAbortController (processScreenshots env s) = None) \<and>
   (mainWindow s \<and> view s = ''queue'' \<and> screenshotQueue s \<noteq> [] \<and>
    (endsWith (last (screenshotQueue s)) ''.mp3'' \<or>
     endsWith (last (screenshotQueue s)) ''.wav'') \<and>
    analyzeAudioFile env (last (screenshotQueue s)) = Inl err \<longrightarrow>
      sent (processScreenshots env s) =
        sent s @ [(INITIAL_START, No_payload),
                  (INITIAL_SOLUTION_ERROR, Message (message err))] \<and>
      problemInfo (processScreenshots env s) = problemInfo s \<and>
      currentProcessingAbortController (processScreenshots env s) =
        currentProcessingAbortController s \<and>
      currentExtraProcessingAbortController (processScreenshots env s) =
        currentExtraProcessingAbortController s \<and>
      next_controller (processScreenshots env s) = next_controller s) \<and>
   (mainWindow s \<and> screenshotQueue s \<noteq> [] \<and>
    analyzeImageMcq env (last (screenshotQueue s)) = Inl err \<longrightarrow>
      sent (processMcq env s) =
        sent s @ [(INITIAL_START, No_payload),
                  (INITIAL_SOLUTION_ERROR, Message (message err))] \<and>
      problemInfo (processMcq env s) = problemInfo s \<and>
      currentProcessingAbortController (processMcq env s) = None) \<and>
   (mainWindow s \<and>
    takeScreenshot env (print (Log ''Processing Coding Mode...'') s)
      = (Inr path, queue, extraQueue) \<and>
    analyzeImageCoding env path = Inl err \<longrightarrow>
      sent (processCoding env s) =
        sent s @ [(INITIAL_SOLUTION_ERROR, Message (message err))] \<and>
      problemInfo (processCoding env s) = problemInfo s \<and>
      clipboard (processCoding env s) = clipboard s \<and>
      currentProcessingAbortController (processCoding env s) =
        currentProcessingAbortController s \<and>
      currentExtraProcessingAbortController (processCoding env s) =
        currentExtraProcessingAbortController s \<and>
      next_controller (processCoding env s) = next_controller s)"
  by (simp add: processScreenshots_def processMcq_def processCoding_def image_path_def
       audio_path_def coding_caught_def app_defs)

theorem failed_analysis_keeps_problemInfo_witness:
  "sent (processScreenshots (failing_env ''quota exceeded'')
           (example_state ''queue'' [''shot1.png''] [] (Some committed_info))) =
     [(INITIAL_START, No_payload), (INITIAL_SOLUTION_ERROR, Message ''quota exceeded'')] \<and>
   problemInfo (processScreenshots (failing_env ''quota exceeded'')
           (example_state ''queue'' [''shot1.png''] [] (Some committed_info))) =
     Some committed_info \<and>
   currentProcessingAbortController (processScreenshots (failing_env ''quota exceeded'')
           (example_state ''queue'' [''shot1.png''] [] (Some committed_info))) = None \<and>
   sent (processScreenshots (failing_env ''quota exceeded'')
           (example_state ''queue'' [''shot1.png'', ''voice.mp3''] [] None)) =
     [(INITIAL_START, No_payload), (INITIAL_SOLUTION_ERROR, Message ''quota exceeded'')] \<and>
   problemInfo (processScreenshots (failing_env ''quota exceeded'')
           (example_state ''queue'' [''shot1.png'', ''voice.mp3''] [] None)) = None \<and>
   currentProcessingAbortController (processScreenshots (failing_env ''quota exceeded'')
           (example_state ''queue'' [''shot1.png'', ''voice.mp3''] [] None)) = Some 0 \<and>
   sent (processMcq (failing_env ''quota exceeded'')
           (example_state ''queue'' [''shot1.png''] [] (Some committed_info))) =
     [(INITIAL_START, No_payload), (INITIAL_SOLUTION_ERROR, Message ''quota exceeded'')] \<and>
   problemInfo (processMcq (failing_env ''quota exceeded'')
           (example_state ''queue'' [''shot1.png''] [] (Some committed_info))) =
     Some committed_info \<and>
   currentProcessingAbortController (processMcq (failing_env ''quota exceeded'')
           (example_state ''queue'' [''shot1.png''] [] (Some committed_info))) = None \<and>
   sent (processCoding (failing_env ''quota exceeded'')
           (example_state ''queue'' [''shot1.png''] [] (Some committed_info))) =
     [(INITIAL_SOLUTION_ERROR, Message ''quota exceeded'')] \<and>
   problemInfo (processCoding (failing_env ''quota exceeded'')
           (example_state ''queue'' [''shot1.png''] [] (Some committed_info))) =
     Some committed_info"
proof -
  let ?env = "failing_env ''quota exceeded''"
  let ?s = "example_state ''queue'' [''shot1.png''] [] (Some committed_info)"
  let ?a = "example_state ''queue'' [''shot1.png'', ''voice.mp3''] [] None"
  let ?err = "JsError ''quota exceeded''"
  have image: "mainWindow ?s \<and> view ?s = ''queue'' \<and> screenshotQueue ?s \<noteq> [] \<and>
      \<not> endsWith (last (screenshotQueue ?s)) ''.mp3'' \<and>
      \<not> endsWith (last (screenshotQueue ?s)) ''.wav'' \<and>
      analyzeImageFile ?env (last (screenshotQueue ?s)) = Inl ?err"
    by (simp add: example_defs)
  have audio: "mainWindow ?a \<and> view ?a = ''queue'' \<and> screenshotQueue ?a \<noteq> [] \<and>
      (endsWith (last (screenshotQueue ?a)) ''.mp3'' \<or>
       endsWith (last (screenshotQueue ?a)) ''.wav'') \<and>
      analyzeAudioFile ?env (last (screenshotQueue ?a)) = Inl ?err"
    by (simp add: example_defs)
  have mcq: "mainWindow ?s \<and> screenshotQueue ?s \<noteq> [] \<and>
      analyzeImageMcq ?env (last (screenshotQueue ?s)) = Inl ?err"
    by (simp add: example_defs)
  have coding: "mainWindow ?s \<and>
      takeScreenshot ?env (print (Log ''Processing Coding Mode...'') ?s)
        = (Inr ''fresh.png'', [''shot1.png'', ''fresh.png''], []) \<and>
      analyzeImageCoding ?env ''fresh.png'' = Inl ?err"
    by (simp add: example_defs print_def)
  have start: "sent ?s = []" "sent ?a = []" "problemInfo ?s = Some committed_info"
    "problemInfo ?a = None" "currentProcessingAbortController ?a = Some 0"
    by (simp_all add: example_state_def)
  note c2 = failed_analysis_keeps_problemInfo
  from c2 [of ?s ?env ?err, THEN conjunct1, THEN mp, OF image]
    c2 [of ?a ?env ?err, THEN conjunct2, THEN conjunct1, THEN mp, OF audio]
    c2 [of ?s ?env ?err, THEN conjunct2, THEN conjunct2, THEN conjunct1, THEN mp, OF mcq]
    c2 [of ?s ?env ?err "''fresh.png''" "[''shot1.png'', ''fresh.png'']" "[]",
         THEN conjunct2, THEN conjunct2, THEN conjunct2, THEN mp, OF coding]
  show ?thesis
    by (simp only: start append_Nil js_error.sel)
qed

text \<open>
  C3. In the debug branch (window open, view other than \<open>queue\<close>, secondary queue not
  empty) with no problem info committed, the helper sends \<open>DEBUG_START\<close> and then
  \<open>DEBUG_ERROR\<close> with the message \<open>No problem info available\<close>; the language-model
  client receives no call, the debug flag is as before and the secondary slot is empty.
\<close>

theorem debug_without_problemInfo:
  assumes "mainWindow s" and "view s \<noteq> ''queue''" and "extraScreenshotQueue s \<noteq> []"
    and "problemInfo s = None"
  shows "sent (processScreenshots env s) =
           sent s @ [(DEBUG_START, No_payload),
                     (DEBUG_ERROR, Message ''No problem info available'')] \<and>
         llm_calls (processScreenshots env s) = llm_calls s \<and>
         hasDebugged (processScreenshots env s) = hasDebugged s \<and>
         problemInfo (processScreenshots env s) = None \<and>
         currentExtraProcessingAbortController (processScreenshots env s) = None"
  using assms
  by (simp add: processScreenshots_def debug_path_def debug_try_def app_defs)

theorem debug_without_problemInfo_witness:
  "sent (processScreenshots (answering_env ''A'')
           (example_state ''solutions'' [''shot1.png''] [''err.png''] None)) =
     [(DEBUG_START, No_payload), (DEBUG_ERROR, Message ''No problem info available'')] \<and>
   llm_calls (processScreenshots (answering_env ''A'')
           (example_state ''solutions'' [''shot1.png''] [''err.png''] None)) = [] \<and>
   hasDebugged (processScreenshots (answering_env ''A'')
           (example_state ''solutions'' [''shot1.png''] [''err.png''] None)) = True \<and>
   currentExtraProcessingAbortController (processScreenshots (answering_env ''A'')
           (example_state ''solutions'' [''shot1.png''] [''err.png''] None)) = None"
proof -
  let ?s = "example_state ''solutions'' [''shot1.png''] [''err.png''] None"
  have "mainWindow ?s" and "view ?s \<noteq> ''queue''" and "extraScreenshotQueue ?s \<noteq> []"
    and "problemInfo ?s = None"
    by (simp_all add: example_state_def)
  from debug_without_problemInfo [OF this, of "answering_env ''A''"]
  show ?thesis by (simp add: example_state_def)
qed

text \<open>
  C5. \<open>cancelOngoingRequests\<close> calls \<open>abort()\<close> on the controller of each slot that
  holds one (primary first), empties both slots and sets the debug flag to false. With
  both slots empty it changes nothing but the flag, and run a second time it changes
  nothing at all.
\<close>

theorem cancelOngoingRequests_idempotent:
  "currentProcessingAbortController (cancelOngoingRequests s) = None \<and>
   currentExtraProcessingAbortController (cancelOngoingRequests s) = None \<and>
   hasDebugged (cancelOngoingRequests s) = False \<and>
   aborted (cancelOngoingRequests s) =
     aborted s @ (case currentProcessingAbortController s of None \<Rightarrow> [] | Some c \<Rightarrow> [c])
       @ (case currentExtraProcessingAbortController s of None \<Rightarrow> [] | Some c \<Rightarrow> [c]) \<and>
   (currentProcessingAbortController s = None \<and>
    currentExtraProcessingAbortController s = None \<longrightarrow>
      cancelOngoingRequests s = s\<lparr>hasDebugged := False\<rparr>) \<and>
   cancelOngoingRequests (cancelOngoingRequests s) = cancelOngoingRequests s"
  by (simp add: cancelOngoingRequests_def app_defs split: option.splits)

theorem cancelOngoingRequests_idempotent_witness:
  "aborted (cancelOngoingRequests
      ((example_state ''solutions'' [] [] None)
         \<lparr>currentExtraProcessingAbortController := Some 4\<rparr>)) = [0, 4] \<and>
   cancelOngoingRequests
      ((example_state ''queue'' [] [] None)\<lparr>currentProcessingAbortController := None\<rparr>) =
     (example_state ''queue'' [] [] None)
       \<lparr>currentProcessingAbortController := None, hasDebugged := False\<rparr>"
  using cancelOngoingRequests_idempotent
          [of "(example_state ''solutions'' [] [] None)
                 \<lparr>currentExtraProcessingAbortController := Some 4\<rparr>"]
        cancelOngoingRequests_idempotent
          [of "(example_state ''queue'' [] [] None)\<lparr>currentProcessingAbortController := None\<rparr>"]
  by (simp add: example_state_def)

text \<open>
  C9. \<open>processMcq\<close> never looks at the suffix: with the window open and a primary
  queue that is not empty, whatever its last entry is called, the one call the
  language-model client receives is \<open>analyzeImageMcq\<close> on that entry. When the call
  returns, the problem info committed, which is also the argument of
  \<open>PROBLEM_EXTRACTED\<close>, is the MCQ object built from the text, with difficulty
  \<open>easy\<close>.
\<close>

theorem processMcq_no_suffix_classification:
  assumes "mainWindow s" and "screenshotQueue s \<noteq> []"
  shows "llm_calls (processMcq env s) =
           llm_calls s @ [AnalyzeImageMcq (last (screenshotQueue s))] \<and>
         (\<forall>result. analyzeImageMcq env (last (screenshotQueue s)) = Inr result \<longrightarrow>
            (let info =
               JObj [(''problem_statement'', JStr (rtext result)),
                     (''input_format'',
                        JObj [(''description'', JStr ''MCQ Mode''), (''parameters'', JArr [])]),
                     (''output_format'',
                        JObj [(''description'', JStr ''MCQ Answer''),
                              (''type'', JStr ''string''), (''subtype'', JStr ''text'')]),
                     (''complexity'', JObj [(''time'', JStr ''N/A''), (''space'', JStr ''N/A'')]),
                     (''test_cases'', JArr []),
                     (''validation_type'', JStr ''manual''),
                     (''difficulty'', JStr ''easy'')]
             in problemInfo (processMcq env s) = Some info \<and>
                sent (processMcq env s) =
                  sent s @ [(INITIAL_START, No_payload), (PROBLEM_EXTRACTED, Object info)]))"
  using assms
  by (simp add: processMcq_def app_defs Let_def split: sum.splits)

theorem processMcq_no_suffix_classification_witness:
  "endsWith ''voice.mp3'' ''.mp3'' \<and>
   llm_calls (processMcq (answering_env ''B'')
                (example_state ''queue'' [''shot1.png'', ''voice.mp3''] [] None)) =
     [AnalyzeImageMcq ''voice.mp3''] \<and>
   llm_calls (processScreenshots (answering_env ''B'')
                (example_state ''queue'' [''shot1.png'', ''voice.mp3''] [] None)) =
     [AnalyzeAudioFile ''voice.mp3''] \<and>
   (\<exists>info. problemInfo (processMcq (answering_env ''B'')
                (example_state ''queue'' [''shot1.png'', ''voice.mp3''] [] None)) = Some info \<and>
           js_get info ''problem_statement'' = Some (JStr ''B'') \<and>
           js_get info ''difficulty'' = Some (JStr ''easy''))"
proof -
  let ?s = "example_state ''queue'' [''shot1.png'', ''voice.mp3''] [] None"
  have "mainWindow ?s" and "screenshotQueue ?s \<noteq> []"
    by (simp_all add: example_state_def)
  note mcq = processMcq_no_suffix_classification [OF this, of "answering_env ''B''"]
  have last: "last (screenshotQueue ?s) = ''voice.mp3''" "llm_calls ?s = []"
    and answer: "analyzeImageMcq (answering_env ''B'') ''voice.mp3'' = Inr (LlmResult ''B'')"
    by (simp_all add: example_defs)
  have audio: "llm_calls (processScreenshots (answering_env ''B'') ?s) =
                 [AnalyzeAudioFile ''voice.mp3'']"
    by (simp add: processScreenshots_def audio_path_def app_defs example_defs Let_def)
  have suffix: "endsWith ''voice.mp3'' ''.mp3''"
    by (simp add: example_defs)
  from mcq answer show ?thesis
    by (simp add: last audio suffix Let_def)
qed

text \<open>
  C4. The audio branch, at the queue \<open>["voice.mp3"]\<close> with an analysis that returns
  the text \<open>2+2=4\<close>: the record with \<open>problem_statement\<close> and the four empty fields
  is committed, but the argument of \<open>PROBLEM_EXTRACTED\<close> is the result object of the
  analysis call as it came, not that record. The image branch and \<open>processMcq\<close> do
  send the record they commit.
\<close>

theorem audio_path_emits_raw_result:
  "sent (processScreenshots (answering_env ''2+2=4'')
           (example_state ''queue'' [''voice.mp3''] [] None)) =
     [(INITIAL_START, No_payload), (PROBLEM_EXTRACTED, Analysis (LlmResult ''2+2=4''))] \<and>
   problemInfo (processScreenshots (answering_env ''2+2=4'')
           (example_state ''queue'' [''voice.mp3''] [] None)) =
     Some (JObj [(''problem_statement'', JStr ''2+2=4''), (''input_format'', JObj []),
                 (''output_format'', JObj []), (''constraints'', JArr []),
                 (''test_cases'', JArr [])]) \<and>
   (PROBLEM_EXTRACTED,
    Object (JObj [(''problem_statement'', JStr ''2+2=4''), (''input_format'', JObj []),
                  (''output_format'', JObj []), (''constraints'', JArr []),
                  (''test_cases'', JArr [])]))
     \<notin> set (sent (processScreenshots (answering_env ''2+2=4'')
                    (example_state ''queue'' [''voice.mp3''] [] None))) \<and>
   (\<exists>info. sent (processScreenshots (answering_env ''2+2=4'')
                  (example_state ''queue'' [''shot1.png''] [] None)) =
             [(INITIAL_START, No_payload), (PROBLEM_EXTRACTED, Object info)] \<and>
           problemInfo (processScreenshots (answering_env ''2+2=4'')
                  (example_state ''queue'' [''shot1.png''] [] None)) = Some info)"
  by (simp add: processScreenshots_def audio_path_def image_path_def app_defs example_defs
        Let_def)

section \<open>The cleaning of the coding answer\<close>













lemma cleanText_cpp_main:
  "cleanText ''```cpp\<newline>int main(){}\<newline>```'' = ''int main(){}''"
  by (simp add: cleanText_def js_trim_def trimStart_def trimEnd_def js_whitespace_def
        drop_opt_newline_def)


text \<open>What a run of \<open>processCoding\<close> leaves when the capture and the analysis succeed.\<close>

lemma processCoding_success:
  assumes "mainWindow s"
    and "takeScreenshot env (print (Log ''Processing Coding Mode...'') s)
           = (Inr path, queue, extraQueue)"
    and "analyzeImageCoding env path = Inr result"
  shows "clipboard (processCoding env s) = cleanText (rtext result)"
    and "sent (processCoding env s) =
           sent s @ [(SOLUTION_SUCCESS,
                      Object (JObj [(''problem_statement'', JStr ''Solution copied to clipboard!''),
                                    (''validation_type'', JStr ''manual''),
                                    (''output_format'',
                                       JObj [(''type'', JStr ''text''),
                                             (''subtype'', JStr ''text'')])]))]"
    and "problemInfo (processCoding env s) = problemInfo s"
    and "view (processCoding env s) = view s"
  using assms by (simp_all add: processCoding_def app_defs)

text \<open>
  C6. With the window open and the capture done, when the coding analysis returns the
  text \<open>```cpp\nint main(){}\n```\<close> the clipboard holds \<open>int main(){}\<close> after
  \<open>processCoding\<close>, and the one event sent is \<open>SOLUTION_SUCCESS\<close> with the
  notification whose \<open>problem_statement\<close> is \<open>Solution copied to clipboard!\<close>.
\<close>

theorem processCoding_cpp_scenario:
  assumes "mainWindow s"
    and "takeScreenshot env (print (Log ''Processing Coding Mode...'') s)
           = (Inr path, queue, extraQueue)"
    and "analyzeImageCoding env path = Inr result"
    and "rtext result = ''```cpp\<newline>int main(){}\<newline>```''"
  shows "clipboard (processCoding env s) = ''int main(){}'' \<and>
         sent (processCoding env s) =
           sent s @ [(SOLUTION_SUCCESS,
                      Object (JObj [(''problem_statement'', JStr ''Solution copied to clipboard!''),
                                    (''validation_type'', JStr ''manual''),
                                    (''output_format'',
                                       JObj [(''type'', JStr ''text''),
                                             (''subtype'', JStr ''text'')])]))] \<and>
         problemInfo (processCoding env s) = problemInfo s \<and>
         view (processCoding env s) = view s"
  using processCoding_success [OF assms(1-3)] assms(4)
  by (simp add: cleanText_cpp_main)

theorem processCoding_cpp_scenario_witness:
  "clipboard (processCoding (answering_env ''```cpp\<newline>int main(){}\<newline>```'')
                (example_state ''queue'' [] [] None)) = ''int main(){}'' \<and>
   sent (processCoding (answering_env ''```cpp\<newline>int main(){}\<newline>```'')
                (example_state ''queue'' [] [] None)) =
     [(SOLUTION_SUCCESS,
       Object (JObj [(''problem_statement'', JStr ''Solution copied to clipboard!''),
                     (''validation_type'', JStr ''manual''),
                     (''output_format'',
                        JObj [(''type'', JStr ''text''), (''subtype'', JStr ''text'')])]))]"
proof -
  let ?env = "answering_env ''```cpp\<newline>int main(){}\<newline>```''"
  let ?s = "example_state ''queue'' [] [] None"
  have "mainWindow ?s"
    and "takeScreenshot ?env (print (Log ''Processing Coding Mode...'') ?s)
           = (Inr ''fresh.png'', [''fresh.png''], [])"
    and "analyzeImageCoding ?env ''fresh.png''
           = Inr (LlmResult ''```cpp\<newline>int main(){}\<newline>```'')"
    and "rtext (LlmResult ''```cpp\<newline>int main(){}\<newline>```'')
           = ''```cpp\<newline>int main(){}\<newline>```''"
    by (simp_all add: example_defs print_def)
  from processCoding_cpp_scenario [OF this] show ?thesis
    by (simp add: example_state_def)
qed




end
